theory Spec2Isabelle
  imports Main
begin

section \<open>Policy evaluation for prSigstoreSigned (signature/policy_eval_sigstore.go)\<close>

subsection \<open>Go values\<close>

text \<open>
  A Go \<open>[]byte\<close> is a list of bytes that may be the nil slice: \<open>None\<close> is nil, \<open>Some []\<close>
  is an empty slice that is not nil. A Go \<open>string\<close> is a \<open>string\<close> (a list of 8-bit characters).
\<close>

type_synonym bytes = "string option"

fun len :: "bytes \<Rightarrow> nat" where
  "len None = 0"
| "len (Some d) = length d"

text \<open>
  Error values. \<open>ErrorNew\<close> is what \<open>errors.New\<close> and a \<open>fmt.Errorf\<close> without \<open>%w\<close> build,
  \<open>ErrorWrap p e\<close> is \<open>fmt.Errorf(p + "%w", e)\<close>, and \<open>PolicyRequirementError\<close> is the string
  type of that name. A nil \<open>error\<close> is \<open>None\<close> of \<open>error option\<close>; a function returning
  \<open>(v, err)\<close> whose caller looks at \<open>v\<close> only when \<open>err == nil\<close> is a sum, \<open>Inl\<close> the error.
\<close>

datatype error =
    ErrorNew string
  | ErrorWrap string error
  | PolicyRequirementError string

fun errorString :: "error \<Rightarrow> string" where
  "errorString (ErrorNew s) = s"
| "errorString (ErrorWrap p e) = p @ errorString e"
| "errorString (PolicyRequirementError s) = s"

text \<open>What \<open>fmt\<close> prints for an \<open>error\<close> operand of \<open>%w\<close>, nil included.\<close>

fun verbW :: "error option \<Rightarrow> string" where
  "verbW None = ''%!w(<nil>)''"
| "verbW (Some e) = errorString e"

definition dq :: string where
  "dq = [CHR 0x22]"

text \<open>\<open>%d\<close> of a counter that only counts up from 0 (bounded by the number of signatures).\<close>

fun verbD :: "nat \<Rightarrow> string" where
  "verbD n = (if n < 10 then [''0123456789'' ! n] else verbD (n div 10) @ [''0123456789'' ! (n mod 10)])"

declare verbD.simps [simp del]

subsection \<open>Keys, trust roots, policy requirements, signatures, images\<close>

text \<open>
  \<open>crypto.PublicKey\<close> is an empty interface; the code only distinguishes, by a type assertion,
  whether the dynamic type is \<open>*ecdsa.PublicKey\<close>. The key material itself is opaque.
\<close>

datatype ecdsa_PublicKey = ECDSAPublicKey string

datatype PublicKey =
    ECDSA ecdsa_PublicKey
  | OtherKey string

type_synonym CertPool = "string list"

record fulcioTrustRoot =
  caCertificates :: CertPool
  oidcIssuer :: string
  subjectEmail :: string

record sigstoreSignedTrustRoot =
  publicKeys :: "PublicKey list"
  fulcio :: "fulcioTrustRoot option"
  rekorPublicKey :: "ecdsa_PublicKey option"

datatype signatureAcceptanceResult = sarAccepted | sarRejected | sarUnknown

record signatureKeyAcceptanceResult =
  result :: signatureAcceptanceResult
  key :: "PublicKey option"

text \<open>The \<open>*Signature\<close> that \<open>isSignatureAuthorAccepted\<close> may return: opaque here.\<close>

datatype Signature = Signature string string

text \<open>
  \<open>signature.Sigstore\<close>, through its three accessors, and \<open>signature.Signature\<close>, the
  interface of everything an image may carry as a signature: a sigstore one or another kind.
\<close>

record Sigstore =
  UntrustedMIMEType :: string
  UntrustedPayload :: bytes
  UntrustedAnnotations :: "string \<rightharpoonup> string"

datatype signature_Signature =
    IsSigstore Sigstore
  | NotSigstore string

text \<open>
  \<open>private.UnparsedImage\<close>, through the two methods the code calls. The context argument
  only carries cancellation; its effect is part of the result the method gives.
\<close>

record UnparsedImage =
  Manifest :: "error + (bytes \<times> string)"
  UntrustedSignatures :: "error + signature_Signature list"

record prSigstoreSignedFulcio =
  CAPath :: string
  CAData :: bytes
  OIDCIssuer :: string
  SubjectEmail :: string

text \<open>
  \<open>SignedIdentity\<close> is used through \<open>matchesDockerReference\<close> only, so the field holds that
  predicate.
\<close>

record prSigstoreSigned =
  KeyPath :: string
  KeyPaths :: "string list"
  KeyData :: bytes
  KeyDatas :: "bytes list"
  Fulcio :: "prSigstoreSignedFulcio option"
  RekorPublicKeyPath :: string
  RekorPublicKeyData :: bytes
  SignedIdentity :: "UnparsedImage \<Rightarrow> string \<Rightarrow> bool"

datatype UntrustedSigstorePayload = UntrustedSigstorePayload string string

record SigstorePayloadAcceptanceRules =
  ValidateSignedDockerReference :: "string \<Rightarrow> error option"
  ValidateSignedDockerManifestDigest :: "string \<Rightarrow> error option"

subsection \<open>What the file calls and does not define\<close>

text \<open>
  The storage read, the PEM and certificate parsers, the Rekor, Fulcio and payload verifiers,
  the digest comparison and the constants of package \<open>internal/signature\<close> are declared
  outside this file. They are parameters of the model: every theorem below holds for every
  choice of them. \<open>AppendCertsFromPEM\<close> gives the filled pool, or \<open>None\<close> when it reports
  \<open>ok = false\<close>; \<open>sarString\<close> is the conversion \<open>string(res.result)\<close>; \<open>strconv_Quote\<close> is
  the quoting that \<open>fmt\<close> does for the verb \<open>%q\<close>, with all its escapes.
\<close>

record externals =
  ReadFile :: "string \<Rightarrow> error + bytes"
  UnmarshalPEMToPublicKey :: "bytes \<Rightarrow> error + PublicKey"
  MarshalPublicKeyToPEM :: "PublicKey \<Rightarrow> error + bytes"
  AppendCertsFromPEM :: "bytes \<Rightarrow> CertPool option"
  fulcio_validate :: "fulcioTrustRoot \<Rightarrow> error option"
  VerifyRekorSET :: "ecdsa_PublicKey \<Rightarrow> bytes \<Rightarrow> bytes \<Rightarrow> string \<Rightarrow> bytes \<Rightarrow> error + nat"
  verifyRekorFulcio :: "ecdsa_PublicKey \<Rightarrow> fulcioTrustRoot \<Rightarrow> bytes \<Rightarrow> bytes \<Rightarrow> bytes \<Rightarrow> string \<Rightarrow> bytes
    \<Rightarrow> error + PublicKey"
  VerifySigstorePayload :: "PublicKey list \<Rightarrow> bytes \<Rightarrow> string \<Rightarrow> SigstorePayloadAcceptanceRules
    \<Rightarrow> error + (UntrustedSigstorePayload option \<times> PublicKey option)"
  MatchesDigest :: "bytes \<Rightarrow> string \<Rightarrow> error + bool"
  sarString :: "signatureAcceptanceResult \<Rightarrow> string"
  strconv_Quote :: "string \<Rightarrow> string"
  SigstoreSignatureMIMEType :: string
  SigstoreSignatureAnnotationKey :: string
  SigstoreSETAnnotationKey :: string
  SigstoreCertificateAnnotationKey :: string
  SigstoreIntermediateCertificateChainAnnotationKey :: string

text \<open>
  Modelled from the spec: \<open>multierr.Format\<close> (package \<open>internal/multierr\<close>, not in this file)
  for the call the aggregator makes, with two or more errors: "join all reasons into one
  combined message, each reason separated and terminated consistently, prefixed with a
  summary header". The message is \<open>first\<close>, the reasons separated by \<open>middle\<close>, then \<open>last\<close>.
\<close>

fun joinReasons :: "string \<Rightarrow> string list \<Rightarrow> string" where
  "joinReasons middle [] = []"
| "joinReasons middle [r] = r"
| "joinReasons middle (r # r' # rs) = r @ middle @ joinReasons middle (r' # rs)"

definition multierr_Format :: "string \<Rightarrow> string \<Rightarrow> string \<Rightarrow> error option list \<Rightarrow> error" where
  "multierr_Format first' middle' last' errs = ErrorNew (first' @ joinReasons middle' (map verbW errs) @ last')"

subsection \<open>loadBytesFromDataOrPath (lines 26-41)\<close>

definition loadBytesFromDataOrPath :: "externals \<Rightarrow> string \<Rightarrow> bytes \<Rightarrow> string \<Rightarrow> error + bytes" where
  "loadBytesFromDataOrPath ext prefix data path =
    (if data \<noteq> None \<and> path \<noteq> '''' then
       Inl (ErrorNew (''Internal inconsistency: both '' @ dq @ prefix @ ''Path'' @ dq @ '' and '' @ dq
                      @ prefix @ ''Data'' @ dq @ '' specified''))
     else if path \<noteq> '''' then
       (case ReadFile ext path of
          Inl err \<Rightarrow> Inl err
        | Inr d \<Rightarrow> Inr d)
     else if data \<noteq> None then Inr data
     else Inr None)"

subsection \<open>prSigstoreSignedFulcio.prepareTrustRoot (lines 45-66)\<close>

definition fulcio_prepareTrustRoot :: "externals \<Rightarrow> prSigstoreSignedFulcio \<Rightarrow> error + fulcioTrustRoot" where
  "fulcio_prepareTrustRoot ext f =
    (case loadBytesFromDataOrPath ext ''fulcioCA'' (CAData f) (CAPath f) of
       Inl err \<Rightarrow> Inl err
     | Inr caCertBytes \<Rightarrow>
         if caCertBytes = None then
           Inl (ErrorNew (''Internal inconsistency: Fulcio specified with neither '' @ dq @ ''caPath'' @ dq
                          @ '' nor '' @ dq @ ''caData'' @ dq))
         else
           (case AppendCertsFromPEM ext caCertBytes of
              None \<Rightarrow> Inl (ErrorNew ''error loading Fulcio CA certificates'')
            | Some certs \<Rightarrow>
                let fulcio = \<lparr>caCertificates = certs, oidcIssuer = OIDCIssuer f, subjectEmail = SubjectEmail f\<rparr>
                in (case fulcio_validate ext fulcio of
                      Some err \<Rightarrow> Inl err
                    | None \<Rightarrow> Inr fulcio)))"

subsection \<open>prSigstoreSigned.prepareTrustRoot (lines 75-150)\<close>

text \<open>Lines 83-87 and 89-93: the one path list and the one data list the function works on.\<close>

definition keyPaths :: "prSigstoreSigned \<Rightarrow> string list" where
  "keyPaths pr = (if KeyPath pr \<noteq> '''' then [KeyPath pr] else KeyPaths pr)"

definition keyDatas :: "prSigstoreSigned \<Rightarrow> bytes list" where
  "keyDatas pr = (if KeyData pr \<noteq> None \<and> len (KeyData pr) > 0 then [KeyData pr] else KeyDatas pr)"

text \<open>The loop of lines 99-111, appending to \<open>pks\<close>.\<close>

fun loadKeyPaths :: "externals \<Rightarrow> string list \<Rightarrow> PublicKey list \<Rightarrow> error + PublicKey list" where
  "loadKeyPaths ext [] pks = Inr pks"
| "loadKeyPaths ext (keyPath # rest) pks =
    (case ReadFile ext keyPath of
       Inl err \<Rightarrow> Inl err
     | Inr publicKeyPEM \<Rightarrow>
         if publicKeyPEM \<noteq> None then
           (case UnmarshalPEMToPublicKey ext publicKeyPEM of
              Inl err \<Rightarrow> Inl (ErrorWrap ''parsing public key: '' err)
            | Inr pk \<Rightarrow> loadKeyPaths ext rest (pks @ [pk]))
         else loadKeyPaths ext rest pks)"

text \<open>The loop of lines 113-120.\<close>

fun loadKeyDatas :: "externals \<Rightarrow> bytes list \<Rightarrow> PublicKey list \<Rightarrow> error + PublicKey list" where
  "loadKeyDatas ext [] pks = Inr pks"
| "loadKeyDatas ext (keyData # rest) pks =
    (case UnmarshalPEMToPublicKey ext keyData of
       Inl err \<Rightarrow> Inl (ErrorWrap ''parsing public key: '' err)
     | Inr pk \<Rightarrow> loadKeyDatas ext rest (pks @ [pk]))"

text \<open>Lines 124-130.\<close>

definition prepareFulcio :: "externals \<Rightarrow> prSigstoreSigned \<Rightarrow> error + fulcioTrustRoot option" where
  "prepareFulcio ext pr =
    (case Fulcio pr of
       None \<Rightarrow> Inr None
     | Some f \<Rightarrow>
         (case fulcio_prepareTrustRoot ext f of
            Inl err \<Rightarrow> Inl err
          | Inr ft \<Rightarrow> Inr (Some ft)))"

text \<open>Lines 132-147.\<close>

definition prepareRekor :: "externals \<Rightarrow> prSigstoreSigned \<Rightarrow> error + ecdsa_PublicKey option" where
  "prepareRekor ext pr =
    (case loadBytesFromDataOrPath ext ''rekorPublicKey'' (RekorPublicKeyData pr) (RekorPublicKeyPath pr) of
       Inl err \<Rightarrow> Inl err
     | Inr rekorPublicKeyPEM \<Rightarrow>
         if rekorPublicKeyPEM \<noteq> None then
           (case UnmarshalPEMToPublicKey ext rekorPublicKeyPEM of
              Inl err \<Rightarrow> Inl (ErrorWrap ''parsing Rekor public key: '' err)
            | Inr pk \<Rightarrow>
                (case pk of
                   ECDSA pkECDSA \<Rightarrow> Inr (Some pkECDSA)
                 | OtherKey x \<Rightarrow> Inl (ErrorNew ''Rekor public key is not using ECDSA'')))
         else Inr None)"

definition prepareTrustRoot :: "externals \<Rightarrow> prSigstoreSigned \<Rightarrow> error + sigstoreSignedTrustRoot" where
  "prepareTrustRoot ext pr =
    (if length (keyDatas pr) > 0 \<and> length (keyPaths pr) > 0 then
       Inl (ErrorNew ''Too many key sources are specified'')
     else
       (case loadKeyPaths ext (keyPaths pr) [] of
          Inl err \<Rightarrow> Inl err
        | Inr pks \<Rightarrow>
            (case loadKeyDatas ext (keyDatas pr) pks of
               Inl err \<Rightarrow> Inl err
             | Inr pks' \<Rightarrow>
                 (case prepareFulcio ext pr of
                    Inl err \<Rightarrow> Inl err
                  | Inr f \<Rightarrow>
                      (case prepareRekor ext pr of
                         Inl err \<Rightarrow> Inl err
                       | Inr rk \<Rightarrow> Inr \<lparr>publicKeys = pks', fulcio = f, rekorPublicKey = rk\<rparr>)))))"

subsection \<open>prSigstoreSigned.isSignatureAuthorAccepted (lines 152-156)\<close>

definition isSignatureAuthorAccepted ::
  "prSigstoreSigned \<Rightarrow> 'ctx \<Rightarrow> UnparsedImage \<Rightarrow> bytes \<Rightarrow> signatureAcceptanceResult \<times> Signature option \<times> error option" where
  "isSignatureAuthorAccepted pr ctx img sig =
    (sarRejected, None, Some (ErrorNew ''isSignatureAuthorAccepted is not implemented for sigstore''))"

subsection \<open>prSigstoreSigned.isSignatureAccepted (lines 158-275)\<close>

definition rejectedRes :: signatureKeyAcceptanceResult where
  "rejectedRes = \<lparr>result = sarRejected, key = None\<rparr>"

text \<open>
  The loop of lines 188-204, appending the keys that pass to \<open>publicKeys\<close>. Both
  \<open>continue\<close> statements are preceded by a \<open>logrus.Errorf\<close> call, which writes to the log and
  changes nothing the function returns; the log is not part of the model.
\<close>

fun rekorKeyLoop ::
  "externals \<Rightarrow> ecdsa_PublicKey \<Rightarrow> string \<Rightarrow> string \<Rightarrow> bytes \<Rightarrow> PublicKey list \<Rightarrow> PublicKey list
    \<Rightarrow> PublicKey list" where
  "rekorKeyLoop ext rk untrustedSET untrustedBase64Signature untrustedPayload [] publicKeys' = publicKeys'"
| "rekorKeyLoop ext rk untrustedSET untrustedBase64Signature untrustedPayload (pk # rest) publicKeys' =
    (case MarshalPublicKeyToPEM ext pk of
       Inl err \<Rightarrow>
         rekorKeyLoop ext rk untrustedSET untrustedBase64Signature untrustedPayload rest publicKeys'
     | Inr recreatedPublicKeyPEM \<Rightarrow>
         (case VerifyRekorSET ext rk (Some untrustedSET) recreatedPublicKeyPEM untrustedBase64Signature
                 untrustedPayload of
            Inl err \<Rightarrow>
              rekorKeyLoop ext rk untrustedSET untrustedBase64Signature untrustedPayload rest publicKeys'
          | Inr t \<Rightarrow>
              rekorKeyLoop ext rk untrustedSET untrustedBase64Signature untrustedPayload rest
                (publicKeys' @ [pk])))"

text \<open>
  The switch of lines 174-236: the candidate keys, or the error the function returns with
  \<open>rejectedRes\<close>. When no case of the switch applies, \<open>publicKeys\<close> keeps its zero value.
\<close>

definition candidateKeys ::
  "externals \<Rightarrow> sigstoreSignedTrustRoot \<Rightarrow> (string \<rightharpoonup> string) \<Rightarrow> string \<Rightarrow> bytes \<Rightarrow> error + PublicKey list" where
  "candidateKeys ext trustRoot untrustedAnnotations untrustedBase64Signature untrustedPayload =
    (if length (publicKeys trustRoot) > 0 \<and> fulcio trustRoot \<noteq> None then
       Inl (ErrorNew ''Internal inconsistency: Both a public key and Fulcio CA specified'')
     else if length (publicKeys trustRoot) = 0 \<and> fulcio trustRoot = None then
       Inl (ErrorNew ''Internal inconsistency: Neither a public key nor a Fulcio CA specified'')
     else if length (publicKeys trustRoot) > 0 then
       (case rekorPublicKey trustRoot of
          Some rk \<Rightarrow>
            (case untrustedAnnotations (SigstoreSETAnnotationKey ext) of
               None \<Rightarrow> Inl (ErrorNew (''missing '' @ SigstoreSETAnnotationKey ext @ '' annotation''))
             | Some untrustedSET \<Rightarrow>
                 let publicKeys' = rekorKeyLoop ext rk untrustedSET untrustedBase64Signature untrustedPayload
                                     (publicKeys trustRoot) []
                 in if length publicKeys' = 0 then
                      Inl (ErrorNew ''No public key verified against the RekorSET'')
                    else Inr publicKeys')
        | None \<Rightarrow> Inr (publicKeys trustRoot))
     else
       (case fulcio trustRoot of
          Some f \<Rightarrow>
            (case rekorPublicKey trustRoot of
               None \<Rightarrow> Inl (ErrorNew ''Internal inconsistency: Fulcio CA specified without a Rekor public key'')
             | Some rk \<Rightarrow>
                 (case untrustedAnnotations (SigstoreSETAnnotationKey ext) of
                    None \<Rightarrow> Inl (ErrorNew (''missing '' @ SigstoreSETAnnotationKey ext @ '' annotation''))
                  | Some untrustedSET \<Rightarrow>
                      (case untrustedAnnotations (SigstoreCertificateAnnotationKey ext) of
                         None \<Rightarrow>
                           Inl (ErrorNew (''missing '' @ SigstoreCertificateAnnotationKey ext @ '' annotation''))
                       | Some untrustedCert \<Rightarrow>
                           let untrustedIntermediateChainBytes =
                                 (case untrustedAnnotations (SigstoreIntermediateCertificateChainAnnotationKey ext) of
                                    Some untrustedIntermediateChain \<Rightarrow> Some untrustedIntermediateChain
                                  | None \<Rightarrow> None)
                           in (case verifyRekorFulcio ext rk f (Some untrustedSET) (Some untrustedCert)
                                      untrustedIntermediateChainBytes untrustedBase64Signature untrustedPayload of
                                 Inl err \<Rightarrow> Inl err
                               | Inr pk \<Rightarrow> Inr [pk]))))
        | None \<Rightarrow> Inr []))"

text \<open>The two closures of lines 244-263.\<close>

definition validateSignedDockerReference ::
  "externals \<Rightarrow> prSigstoreSigned \<Rightarrow> UnparsedImage \<Rightarrow> string \<Rightarrow> error option" where
  "validateSignedDockerReference ext pr img ref =
    (if \<not> SignedIdentity pr img ref then
       Some (PolicyRequirementError (''Signature for identity '' @ strconv_Quote ext ref @ '' is not accepted''))
     else None)"

definition validateSignedDockerManifestDigest :: "externals \<Rightarrow> UnparsedImage \<Rightarrow> string \<Rightarrow> error option" where
  "validateSignedDockerManifestDigest ext img digest =
    (case Manifest img of
       Inl err \<Rightarrow> Some err
     | Inr (m, mt) \<Rightarrow>
         (case MatchesDigest ext m digest of
            Inl err \<Rightarrow> Some err
          | Inr digestMatches \<Rightarrow>
              if \<not> digestMatches then
                Some (PolicyRequirementError (''Signature for digest '' @ digest @ '' does not match''))
              else None))"

text \<open>The rules value of lines 243-264, built from the two closures.\<close>

definition payloadRules :: "externals \<Rightarrow> prSigstoreSigned \<Rightarrow> UnparsedImage \<Rightarrow> SigstorePayloadAcceptanceRules" where
  "payloadRules ext pr img =
    \<lparr>ValidateSignedDockerReference = validateSignedDockerReference ext pr img,
     ValidateSignedDockerManifestDigest = validateSignedDockerManifestDigest ext img\<rparr>"

text \<open>The function from line 167 on, for the trust root that line 162 has prepared.\<close>

definition acceptWithTrustRoot ::
  "externals \<Rightarrow> prSigstoreSigned \<Rightarrow> UnparsedImage \<Rightarrow> sigstoreSignedTrustRoot \<Rightarrow> Sigstore
    \<Rightarrow> signatureKeyAcceptanceResult \<times> error option" where
  "acceptWithTrustRoot ext pr img trustRoot sig =
    (case UntrustedAnnotations sig (SigstoreSignatureAnnotationKey ext) of
       None \<Rightarrow> (rejectedRes, Some (ErrorNew (''missing '' @ SigstoreSignatureAnnotationKey ext @ '' annotation'')))
     | Some untrustedBase64Signature \<Rightarrow>
         (case candidateKeys ext trustRoot (UntrustedAnnotations sig) untrustedBase64Signature
                 (UntrustedPayload sig) of
            Inl err \<Rightarrow> (rejectedRes, Some err)
          | Inr publicKeys' \<Rightarrow>
              if length publicKeys' = 0 then
                (rejectedRes,
                 Some (ErrorNew ''Internal inconsistency: publicKey not set before verifying sigstore payload''))
              else
                (case VerifySigstorePayload ext publicKeys' (UntrustedPayload sig) untrustedBase64Signature
                        (payloadRules ext pr img) of
                   Inl err \<Rightarrow> (rejectedRes, Some err)
                 | Inr (signature, signingKey) \<Rightarrow>
                     if signature = None then
                       (rejectedRes,
                        Some (ErrorNew ''internal error: VerifySigstorePayload succeeded but returned no data''))
                     else (\<lparr>result = sarAccepted, key = signingKey\<rparr>, None))))"

definition isSignatureAccepted ::
  "externals \<Rightarrow> prSigstoreSigned \<Rightarrow> UnparsedImage \<Rightarrow> Sigstore \<Rightarrow> signatureKeyAcceptanceResult \<times> error option" where
  "isSignatureAccepted ext pr img sig =
    (case prepareTrustRoot ext pr of
       Inl err \<Rightarrow> (rejectedRes, Some err)
     | Inr trustRoot \<Rightarrow> acceptWithTrustRoot ext pr img trustRoot sig)"

subsection \<open>prSigstoreSigned.isRunningImageAllowed (lines 277-327)\<close>

text \<open>Lines 311-326. The two counters only count signatures, so they are natural numbers.\<close>

definition summary :: "error option list \<Rightarrow> nat \<Rightarrow> nat \<Rightarrow> error option" where
  "summary rejections foundNonSigstoreSignatures foundSigstoreNonAttachments =
    (if length rejections = 0 then
       (if foundNonSigstoreSignatures = 0 \<and> foundSigstoreNonAttachments = 0 then
          Some (PolicyRequirementError ''A signature was required, but no signature exists'')
        else
          Some (PolicyRequirementError
            (''A signature was required, but no signature exists ('' @ verbD foundNonSigstoreSignatures
             @ '' non-sigstore signatures, '' @ verbD foundSigstoreNonAttachments
             @ '' sigstore non-signature attachments)'')))
     else if length rejections = 1 then rejections ! 0
     else
       Some (PolicyRequirementError
         (errorString (multierr_Format ''None of the signatures were accepted, reasons: '' ''; '' [] rejections))))"

text \<open>
  The loop of lines 285-310 followed by the summary, with the three variables the loop
  updates.
\<close>

fun signaturesLoop ::
  "externals \<Rightarrow> prSigstoreSigned \<Rightarrow> UnparsedImage \<Rightarrow> signature_Signature list \<Rightarrow> error option list \<Rightarrow> nat \<Rightarrow> nat
    \<Rightarrow> bool \<times> error option" where
  "signaturesLoop ext pr img [] rejections foundNonSigstoreSignatures foundSigstoreNonAttachments =
    (False, summary rejections foundNonSigstoreSignatures foundSigstoreNonAttachments)"
| "signaturesLoop ext pr img (s # sigs) rejections foundNonSigstoreSignatures foundSigstoreNonAttachments =
    (case s of
       NotSigstore x \<Rightarrow>
         signaturesLoop ext pr img sigs rejections (foundNonSigstoreSignatures + 1) foundSigstoreNonAttachments
     | IsSigstore sigstoreSig \<Rightarrow>
         if UntrustedMIMEType sigstoreSig \<noteq> SigstoreSignatureMIMEType ext then
           signaturesLoop ext pr img sigs rejections foundNonSigstoreSignatures (foundSigstoreNonAttachments + 1)
         else
           (case isSignatureAccepted ext pr img sigstoreSig of
              (res, err) \<Rightarrow>
                (case result res of
                   sarAccepted \<Rightarrow> (True, None)
                 | sarRejected \<Rightarrow>
                     signaturesLoop ext pr img sigs (rejections @ [err]) foundNonSigstoreSignatures
                       foundSigstoreNonAttachments
                 | sarUnknown \<Rightarrow>
                     signaturesLoop ext pr img sigs
                       (rejections @ [Some (ErrorNew (''Internal error: Unexpected signature verification result ''
                                                      @ strconv_Quote ext (sarString ext (result res))))])
                       foundNonSigstoreSignatures foundSigstoreNonAttachments)))"

definition isRunningImageAllowed :: "externals \<Rightarrow> prSigstoreSigned \<Rightarrow> UnparsedImage \<Rightarrow> bool \<times> error option" where
  "isRunningImageAllowed ext pr img =
    (case UntrustedSignatures img of
       Inl err \<Rightarrow> (False, Some err)
     | Inr sigs \<Rightarrow> signaturesLoop ext pr img sigs [] 0 0)"

subsection \<open>Vocabulary for the properties\<close>

text \<open>
  What one iteration of the loop of lines 188-204 decides: the key is appended exactly when
  re-marshalling and the check against the SET both succeed.
\<close>

definition passesRekorSET ::
  "externals \<Rightarrow> ecdsa_PublicKey \<Rightarrow> string \<Rightarrow> string \<Rightarrow> bytes \<Rightarrow> PublicKey \<Rightarrow> bool" where
  "passesRekorSET ext rk untrustedSET untrustedBase64Signature untrustedPayload pk =
    (case MarshalPublicKeyToPEM ext pk of
       Inl err \<Rightarrow> False
     | Inr recreatedPublicKeyPEM \<Rightarrow>
         (case VerifyRekorSET ext rk (Some untrustedSET) recreatedPublicKeyPEM untrustedBase64Signature
                 untrustedPayload of
            Inl err \<Rightarrow> False
          | Inr t \<Rightarrow> True))"

text \<open>
  How the loop of lines 285-310 treats one signature: it reaches \<open>isSignatureAccepted\<close>
  (\<open>isAttachment\<close>), it ends the loop with \<open>true\<close> (\<open>sigAccepted\<close>), or it appends
  \<open>rejectionReason\<close> to \<open>rejections\<close>; and what the loop has accumulated over a list in
  which no signature is accepted.
\<close>

definition isAttachment :: "externals \<Rightarrow> signature_Signature \<Rightarrow> bool" where
  "isAttachment ext s =
    (case s of
       NotSigstore x \<Rightarrow> False
     | IsSigstore sigstoreSig \<Rightarrow> UntrustedMIMEType sigstoreSig = SigstoreSignatureMIMEType ext)"

definition sigAccepted :: "externals \<Rightarrow> prSigstoreSigned \<Rightarrow> UnparsedImage \<Rightarrow> signature_Signature \<Rightarrow> bool" where
  "sigAccepted ext pr img s =
    (case s of
       NotSigstore x \<Rightarrow> False
     | IsSigstore sigstoreSig \<Rightarrow>
         UntrustedMIMEType sigstoreSig = SigstoreSignatureMIMEType ext
         \<and> result (fst (isSignatureAccepted ext pr img sigstoreSig)) = sarAccepted)"

definition rejectionReason :: "externals \<Rightarrow> prSigstoreSigned \<Rightarrow> UnparsedImage \<Rightarrow> Sigstore \<Rightarrow> error option" where
  "rejectionReason ext pr img sigstoreSig =
    (case isSignatureAccepted ext pr img sigstoreSig of
       (res, err) \<Rightarrow>
         (case result res of
            sarRejected \<Rightarrow> err
          | r \<Rightarrow> Some (ErrorNew (''Internal error: Unexpected signature verification result ''
                                  @ strconv_Quote ext (sarString ext r)))))"

fun recordedRejections ::
  "externals \<Rightarrow> prSigstoreSigned \<Rightarrow> UnparsedImage \<Rightarrow> signature_Signature list \<Rightarrow> error option list" where
  "recordedRejections ext pr img [] = []"
| "recordedRejections ext pr img (NotSigstore x # sigs) = recordedRejections ext pr img sigs"
| "recordedRejections ext pr img (IsSigstore sigstoreSig # sigs) =
    (if UntrustedMIMEType sigstoreSig = SigstoreSignatureMIMEType ext
     then rejectionReason ext pr img sigstoreSig # recordedRejections ext pr img sigs
     else recordedRejections ext pr img sigs)"

fun nonSigstoreCount :: "signature_Signature list \<Rightarrow> nat" where
  "nonSigstoreCount [] = 0"
| "nonSigstoreCount (NotSigstore x # sigs) = nonSigstoreCount sigs + 1"
| "nonSigstoreCount (IsSigstore sigstoreSig # sigs) = nonSigstoreCount sigs"

fun nonAttachmentCount :: "externals \<Rightarrow> signature_Signature list \<Rightarrow> nat" where
  "nonAttachmentCount ext [] = 0"
| "nonAttachmentCount ext (NotSigstore x # sigs) = nonAttachmentCount ext sigs"
| "nonAttachmentCount ext (IsSigstore sigstoreSig # sigs) =
    (if UntrustedMIMEType sigstoreSig \<noteq> SigstoreSignatureMIMEType ext
     then nonAttachmentCount ext sigs + 1 else nonAttachmentCount ext sigs)"

subsection \<open>A concrete instance\<close>

text \<open>
  A small world to evaluate the functions in: every file holds its own name, except
  \<open>/missing\<close>, which cannot be read; a key is its name, and \<open>rekor.pub\<close> is the one ECDSA
  key; a SET covers the key or certificate it is equal to; a signature verifies under the
  key its base64 text names, and the payload is the signed docker reference. The constants
  have the values of package \<open>internal/signature\<close>. The instance's \<open>strconv_Quote\<close> is what
  \<open>strconv.Quote\<close> does on the texts the instance quotes, which are letters, digits and
  punctuation: double quotes around the text, a backslash before a double quote or a
  backslash.
\<close>

definition sampleExt :: externals where
  "sampleExt =
    \<lparr>ReadFile = (\<lambda>path. if path = ''/missing'' then Inl (ErrorNew ''open /missing: no such file or directory'')
                         else Inr (Some path)),
     UnmarshalPEMToPublicKey = (\<lambda>pem. case pem of
                                        None \<Rightarrow> Inl (ErrorNew ''PEM decoding failed'')
                                      | Some s \<Rightarrow> if s = ''rekor.pub'' then Inr (ECDSA (ECDSAPublicKey s))
                                                  else Inr (OtherKey s)),
     MarshalPublicKeyToPEM = (\<lambda>pk. case pk of
                                     ECDSA (ECDSAPublicKey s) \<Rightarrow> Inr (Some s)
                                   | OtherKey s \<Rightarrow> Inr (Some s)),
     AppendCertsFromPEM = (\<lambda>pem. case pem of None \<Rightarrow> None | Some s \<Rightarrow> if s = [] then None else Some [s]),
     fulcio_validate = (\<lambda>f. if oidcIssuer f = []
                              then Some (ErrorNew ''Internal inconsistency: Fulcio use set up without OIDC issuer'')
                              else if subjectEmail f = []
                              then Some (ErrorNew ''Internal inconsistency: Fulcio use set up without subject email'')
                              else None),
     VerifyRekorSET = (\<lambda>rk untrustedSET pem b64 payload.
                         if untrustedSET = pem then Inr 0 else Inl (ErrorNew ''SET does not cover this key'')),
     verifyRekorFulcio = (\<lambda>rk f untrustedSET cert chain b64 payload.
                            case cert of
                              None \<Rightarrow> Inl (ErrorNew ''no certificate'')
                            | Some c \<Rightarrow> if untrustedSET = cert then Inr (OtherKey c)
                                        else Inl (ErrorNew ''SET does not cover this certificate'')),
     VerifySigstorePayload = (\<lambda>keys payload b64 rules.
                                if OtherKey b64 \<in> set keys then
                                  (case ValidateSignedDockerReference rules (case payload of None \<Rightarrow> [] | Some r \<Rightarrow> r) of
                                     Some err \<Rightarrow> Inl err
                                   | None \<Rightarrow>
                                       Inr (Some (UntrustedSigstorePayload (case payload of None \<Rightarrow> [] | Some r \<Rightarrow> r) []),
                                            Some (OtherKey b64)))
                                else Inl (ErrorNew ''cryptographic signature verification failed'')),
     MatchesDigest = (\<lambda>m digest. Inr (m = Some digest)),
     sarString = (\<lambda>r. case r of sarAccepted \<Rightarrow> ''sarAccepted'' | sarRejected \<Rightarrow> ''sarRejected''
                               | sarUnknown \<Rightarrow> ''sarUnknown''),
     strconv_Quote = (\<lambda>s. dq @ concat (map (\<lambda>c. if c = CHR 0x22 \<or> c = CHR 0x5C then [CHR 0x5C, c]
                                                     else [c]) s) @ dq),
     SigstoreSignatureMIMEType = ''application/vnd.dev.cosign.simplesigning.v1+json'',
     SigstoreSignatureAnnotationKey = ''dev.cosignproject.cosign/signature'',
     SigstoreSETAnnotationKey = ''dev.sigstore.cosign/bundle'',
     SigstoreCertificateAnnotationKey = ''dev.sigstore.cosign/certificate'',
     SigstoreIntermediateCertificateChainAnnotationKey = ''dev.sigstore.cosign/chain''\<rparr>"

definition prNone :: prSigstoreSigned where
  "prNone = \<lparr>KeyPath = [], KeyPaths = [], KeyData = None, KeyDatas = [], Fulcio = None,
             RekorPublicKeyPath = [], RekorPublicKeyData = None,
             SignedIdentity = (\<lambda>img ref. ref = ''registry.example/app'')\<rparr>"

definition prTooMany :: prSigstoreSigned where
  "prTooMany = prNone\<lparr>KeyPath := ''alice.pub'', KeyDatas := [Some ''bob.pub'']\<rparr>"

definition prKeys :: prSigstoreSigned where
  "prKeys = prNone\<lparr>KeyPaths := [''alice.pub'', ''bob.pub'']\<rparr>"

definition prBothPaths :: prSigstoreSigned where
  "prBothPaths = prNone\<lparr>KeyPath := ''alice.pub'', KeyPaths := [''bob.pub'']\<rparr>"

definition prBothDatas :: prSigstoreSigned where
  "prBothDatas = prNone\<lparr>KeyData := Some ''alice.pub'', KeyDatas := [Some ''bob.pub'']\<rparr>"

definition prFulcioOnly :: prSigstoreSigned where
  "prFulcioOnly = prNone\<lparr>Fulcio := Some \<lparr>CAPath = [], CAData = Some ''ca.pem'', OIDCIssuer = ''https://issuer.example'',
                                         SubjectEmail = ''dev@example.com''\<rparr>\<rparr>"

definition sigBy :: "string \<Rightarrow> Sigstore" where
  "sigBy k = \<lparr>UntrustedMIMEType = ''application/vnd.dev.cosign.simplesigning.v1+json'',
             UntrustedPayload = Some ''registry.example/app'',
             UntrustedAnnotations = [''dev.cosignproject.cosign/signature'' \<mapsto> k]\<rparr>"

definition sigBare :: Sigstore where
  "sigBare = \<lparr>UntrustedMIMEType = ''application/vnd.dev.cosign.simplesigning.v1+json'',
              UntrustedPayload = Some ''registry.example/app'',
              UntrustedAnnotations = Map.empty\<rparr>"

definition imageWith :: "signature_Signature list \<Rightarrow> UnparsedImage" where
  "imageWith sigs = \<lparr>Manifest = Inr (Some ''sha256:0'', ''application/vnd.oci.image.manifest.v1+json''),
                    UntrustedSignatures = Inr sigs\<rparr>"

definition trKeysRekor :: sigstoreSignedTrustRoot where
  "trKeysRekor = \<lparr>publicKeys = [OtherKey ''alice.pub'', OtherKey ''bob.pub''], fulcio = None,
                  rekorPublicKey = Some (ECDSAPublicKey ''rekor.pub'')\<rparr>"

definition trFulcioRekor :: sigstoreSignedTrustRoot where
  "trFulcioRekor =
    \<lparr>publicKeys = [],
     fulcio = Some \<lparr>caCertificates = [''ca.pem''], oidcIssuer = ''https://issuer.example'',
                    subjectEmail = ''dev@example.com''\<rparr>,
     rekorPublicKey = Some (ECDSAPublicKey ''rekor.pub'')\<rparr>"

definition prRekorOnly :: prSigstoreSigned where
  "prRekorOnly = prNone\<lparr>RekorPublicKeyData := Some ''rekor.pub''\<rparr>"

definition sigLogged :: "string \<Rightarrow> Sigstore" where
  "sigLogged k = \<lparr>UntrustedMIMEType = ''application/vnd.dev.cosign.simplesigning.v1+json'',
                 UntrustedPayload = Some ''registry.example/app'',
                 UntrustedAnnotations = [''dev.cosignproject.cosign/signature'' \<mapsto> k,
                                         ''dev.sigstore.cosign/bundle'' \<mapsto> k]\<rparr>"

section \<open>Properties\<close>

subsection \<open>The concrete instance, evaluated\<close>

lemma prepare_prTooMany: "prepareTrustRoot sampleExt prTooMany = Inl (ErrorNew ''Too many key sources are specified'')"
  by (simp add: prepareTrustRoot_def prTooMany_def prNone_def keyPaths_def keyDatas_def)

lemma prepare_prNone: "prepareTrustRoot sampleExt prNone = Inr \<lparr>publicKeys = [], fulcio = None, rekorPublicKey = None\<rparr>"
  by (simp add: prepareTrustRoot_def prNone_def keyPaths_def keyDatas_def prepareFulcio_def prepareRekor_def
      loadBytesFromDataOrPath_def)

lemma prepare_prKeys: "prepareTrustRoot sampleExt prKeys =
    Inr \<lparr>publicKeys = [OtherKey ''alice.pub'', OtherKey ''bob.pub''], fulcio = None, rekorPublicKey = None\<rparr>"
  by (simp add: prepareTrustRoot_def prKeys_def prNone_def keyPaths_def keyDatas_def prepareFulcio_def prepareRekor_def
      loadBytesFromDataOrPath_def sampleExt_def)

lemma prepare_prFulcioOnly: "prepareTrustRoot sampleExt prFulcioOnly =
    Inr \<lparr>publicKeys = [],
         fulcio = Some \<lparr>caCertificates = [''ca.pem''], oidcIssuer = ''https://issuer.example'',
                        subjectEmail = ''dev@example.com''\<rparr>,
         rekorPublicKey = None\<rparr>"
  by (simp add: prepareTrustRoot_def prFulcioOnly_def prNone_def keyPaths_def keyDatas_def prepareFulcio_def
      prepareRekor_def fulcio_prepareTrustRoot_def loadBytesFromDataOrPath_def sampleExt_def)

lemma prepare_prRekorOnly: "prepareTrustRoot sampleExt prRekorOnly =
    Inr \<lparr>publicKeys = [], fulcio = None, rekorPublicKey = Some (ECDSAPublicKey ''rekor.pub'')\<rparr>"
  by (simp add: prepareTrustRoot_def prRekorOnly_def prNone_def keyPaths_def keyDatas_def prepareFulcio_def
      prepareRekor_def loadBytesFromDataOrPath_def sampleExt_def)

lemma accept_alice: "isSignatureAccepted sampleExt prKeys (imageWith sigs) (sigBy ''alice.pub'') =
    (\<lparr>result = sarAccepted, key = Some (OtherKey ''alice.pub'')\<rparr>, None)"
  by (simp add: isSignatureAccepted_def prepare_prKeys)
    (simp add: acceptWithTrustRoot_def candidateKeys_def sigBy_def payloadRules_def
      sampleExt_def validateSignedDockerReference_def prKeys_def prNone_def)

lemma reject_mallory: "isSignatureAccepted sampleExt prKeys (imageWith sigs) (sigBy ''mallory.pub'') =
    (rejectedRes, Some (ErrorNew ''cryptographic signature verification failed''))"
  by (simp add: isSignatureAccepted_def prepare_prKeys)
    (simp add: acceptWithTrustRoot_def candidateKeys_def sigBy_def payloadRules_def
      sampleExt_def validateSignedDockerReference_def prKeys_def prNone_def)

lemma reject_bare: "isSignatureAccepted sampleExt prKeys (imageWith sigs) sigBare =
    (rejectedRes, Some (ErrorNew ''missing dev.cosignproject.cosign/signature annotation''))"
  by (simp add: isSignatureAccepted_def prepare_prKeys) (simp add: acceptWithTrustRoot_def sigBare_def sampleExt_def)

lemma sample_passesRekorSET:
  "passesRekorSET sampleExt rk st b64 pl (OtherKey k) = (st = k)"
  by (auto simp add: passesRekorSET_def sampleExt_def)

subsection \<open>Key material loader\<close>

text \<open>
  C4. \<open>loadBytesFromDataOrPath\<close> on a pair (inline data, path): with data that is not nil and a
  path that is not empty it fails with the "both ... specified" error; with only the path
  it returns exactly what the storage read returns, the file contents or the read error;
  with only the data it returns the data unchanged; with neither it returns (nil, nil).
\<close>

theorem loadBytesFromDataOrPath_contract:
  "loadBytesFromDataOrPath ext prefix' (Some d) (c # cs) =
     Inl (ErrorNew (''Internal inconsistency: both '' @ dq @ prefix' @ ''Path'' @ dq @ '' and '' @ dq
                    @ prefix' @ ''Data'' @ dq @ '' specified''))
   \<and> loadBytesFromDataOrPath ext prefix' None (c # cs) = ReadFile ext (c # cs)
   \<and> loadBytesFromDataOrPath ext prefix' (Some d) [] = Inr (Some d)
   \<and> loadBytesFromDataOrPath ext prefix' None [] = Inr None"
  by (simp add: loadBytesFromDataOrPath_def split: sum.split)

subsection \<open>Trust root preparation\<close>

text \<open>
  Neither \<open>prepareFulcio\<close> nor \<open>prepareRekor\<close> looks at the key fields, and a plural field
  that lines 83-93 do not select has no part in the result.
\<close>

lemma prepareFulcio_key_fields:
  "prepareFulcio ext (pr\<lparr>KeyPaths := ps\<rparr>) = prepareFulcio ext pr"
  "prepareFulcio ext (pr\<lparr>KeyDatas := ds\<rparr>) = prepareFulcio ext pr"
  by (simp_all add: prepareFulcio_def)

lemma prepareRekor_key_fields:
  "prepareRekor ext (pr\<lparr>KeyPaths := ps\<rparr>) = prepareRekor ext pr"
  "prepareRekor ext (pr\<lparr>KeyDatas := ds\<rparr>) = prepareRekor ext pr"
  by (simp_all add: prepareRekor_def)

lemma prepareTrustRoot_ignores_KeyPaths:
  assumes "KeyPath pr \<noteq> []"
  shows "prepareTrustRoot ext (pr\<lparr>KeyPaths := ps\<rparr>) = prepareTrustRoot ext pr"
proof -
  have kp: "keyPaths (pr\<lparr>KeyPaths := ps\<rparr>) = keyPaths pr"
    using assms by (simp add: keyPaths_def)
  have kd: "keyDatas (pr\<lparr>KeyPaths := ps\<rparr>) = keyDatas pr"
    by (simp add: keyDatas_def)
  show ?thesis
    unfolding prepareTrustRoot_def kp kd prepareFulcio_key_fields prepareRekor_key_fields
    by (rule refl)
qed

lemma prepareTrustRoot_ignores_KeyDatas:
  assumes "0 < len (KeyData pr)"
  shows "prepareTrustRoot ext (pr\<lparr>KeyDatas := ds\<rparr>) = prepareTrustRoot ext pr"
proof -
  have kp: "keyPaths (pr\<lparr>KeyDatas := ds\<rparr>) = keyPaths pr"
    by (simp add: keyPaths_def)
  have kd: "keyDatas (pr\<lparr>KeyDatas := ds\<rparr>) = keyDatas pr"
    using assms by (cases "KeyData pr") (simp_all add: keyDatas_def)
  show ?thesis
    unfolding prepareTrustRoot_def kp kd prepareFulcio_key_fields prepareRekor_key_fields
    by (rule refl)
qed

text \<open>
  C1, as stated, fails: the singular and the plural source are not merged. With \<open>KeyPath\<close>
  set to alice.pub and \<open>KeyPaths\<close> to bob.pub, the path list of lines 83-87 is alice.pub
  alone and the trust root holds only that key; the same with \<open>KeyData\<close> and \<open>KeyDatas\<close>
  (lines 89-93).
\<close>

theorem key_sources_not_merged_counterexample:
  "KeyPath prBothPaths = ''alice.pub'' \<and> KeyPaths prBothPaths = [''bob.pub'']
   \<and> keyPaths prBothPaths = [''alice.pub'']
   \<and> prepareTrustRoot sampleExt prBothPaths =
       Inr \<lparr>publicKeys = [OtherKey ''alice.pub''], fulcio = None, rekorPublicKey = None\<rparr>
   \<and> KeyData prBothDatas = Some ''alice.pub'' \<and> KeyDatas prBothDatas = [Some ''bob.pub'']
   \<and> keyDatas prBothDatas = [Some ''alice.pub'']
   \<and> prepareTrustRoot sampleExt prBothDatas =
       Inr \<lparr>publicKeys = [OtherKey ''alice.pub''], fulcio = None, rekorPublicKey = None\<rparr>"
  by (simp add: prepareTrustRoot_def prBothPaths_def prBothDatas_def prNone_def keyPaths_def keyDatas_def
      prepareFulcio_def prepareRekor_def loadBytesFromDataOrPath_def sampleExt_def)

text \<open>
  C1, amended. The path list is \<open>KeyPath\<close> alone when it is not empty, and then
  \<open>KeyPaths\<close> has no part in the result; it is \<open>KeyPaths\<close> otherwise. The data list is
  \<open>KeyData\<close> alone when it is neither nil nor empty, and then \<open>KeyDatas\<close> has no part in
  the result; it is \<open>KeyDatas\<close> otherwise. Whenever some path source and some data source
  are set, so that both lists are non-empty, \<open>prepareTrustRoot\<close> fails with "Too many key
  sources are specified", whatever the files and keys are: neither list is preferred.
\<close>

theorem key_sources_selected_and_exclusive:
  "(KeyPath pr \<noteq> '''' \<longrightarrow>
      keyPaths pr = [KeyPath pr]
      \<and> (\<forall>ps. prepareTrustRoot ext (pr\<lparr>KeyPaths := ps\<rparr>) = prepareTrustRoot ext pr))
   \<and> (KeyPath pr = '''' \<longrightarrow> keyPaths pr = KeyPaths pr)
   \<and> (0 < len (KeyData pr) \<longrightarrow>
      keyDatas pr = [KeyData pr]
      \<and> (\<forall>ds. prepareTrustRoot ext (pr\<lparr>KeyDatas := ds\<rparr>) = prepareTrustRoot ext pr))
   \<and> (len (KeyData pr) = 0 \<longrightarrow> keyDatas pr = KeyDatas pr)
   \<and> ((KeyPath pr \<noteq> '''' \<or> KeyPaths pr \<noteq> []) \<and> (0 < len (KeyData pr) \<or> KeyDatas pr \<noteq> []) \<longrightarrow>
      prepareTrustRoot ext pr = Inl (ErrorNew ''Too many key sources are specified''))"
proof -
  have p1: "KeyPath pr \<noteq> '''' \<longrightarrow> keyPaths pr = [KeyPath pr]"
    and p2: "KeyPath pr = '''' \<longrightarrow> keyPaths pr = KeyPaths pr"
    by (simp_all add: keyPaths_def)
  have d1: "0 < len (KeyData pr) \<longrightarrow> keyDatas pr = [KeyData pr]"
    and d2: "len (KeyData pr) = 0 \<longrightarrow> keyDatas pr = KeyDatas pr"
    by (cases "KeyData pr"; simp add: keyDatas_def)+
  have np: "KeyPath pr \<noteq> '''' \<or> KeyPaths pr \<noteq> [] \<Longrightarrow> keyPaths pr \<noteq> []"
    by (simp add: keyPaths_def)
  have nd: "0 < len (KeyData pr) \<or> KeyDatas pr \<noteq> [] \<Longrightarrow> keyDatas pr \<noteq> []"
    by (cases "KeyData pr") (auto simp add: keyDatas_def)
  have f: "(KeyPath pr \<noteq> '''' \<or> KeyPaths pr \<noteq> []) \<and> (0 < len (KeyData pr) \<or> KeyDatas pr \<noteq> []) \<longrightarrow>
      prepareTrustRoot ext pr = Inl (ErrorNew ''Too many key sources are specified'')"
    using np nd by (simp add: prepareTrustRoot_def)
  show ?thesis
    using p1 p2 d1 d2 f prepareTrustRoot_ignores_KeyPaths [of pr ext] prepareTrustRoot_ignores_KeyDatas [of pr ext]
    by blast
qed

theorem key_sources_selected_and_exclusive_witness:
  "keyPaths prBothPaths = [''alice.pub'']
   \<and> prepareTrustRoot sampleExt (prBothPaths\<lparr>KeyPaths := [''/missing'']\<rparr>) = prepareTrustRoot sampleExt prBothPaths
   \<and> keyPaths prKeys = [''alice.pub'', ''bob.pub'']
   \<and> keyDatas prBothDatas = [Some ''alice.pub'']
   \<and> prepareTrustRoot sampleExt (prBothDatas\<lparr>KeyDatas := [None]\<rparr>) = prepareTrustRoot sampleExt prBothDatas
   \<and> keyDatas prTooMany = [Some ''bob.pub'']
   \<and> prepareTrustRoot sampleExt prTooMany = Inl (ErrorNew ''Too many key sources are specified'')"
proof -
  have a1: "KeyPath prBothPaths \<noteq> ''''" and v1: "KeyPath prBothPaths = ''alice.pub''"
    by (simp_all add: prBothPaths_def)
  have a2: "KeyPath prKeys = ''''" and v2: "KeyPaths prKeys = [''alice.pub'', ''bob.pub'']"
    by (simp_all add: prKeys_def prNone_def)
  have a3: "0 < len (KeyData prBothDatas)" and v3: "KeyData prBothDatas = Some ''alice.pub''"
    by (simp_all add: prBothDatas_def)
  have a4: "len (KeyData prTooMany) = 0" and v4: "KeyDatas prTooMany = [Some ''bob.pub'']"
    by (simp_all add: prTooMany_def prNone_def)
  have a5: "(KeyPath prTooMany \<noteq> '''' \<or> KeyPaths prTooMany \<noteq> [])
            \<and> (0 < len (KeyData prTooMany) \<or> KeyDatas prTooMany \<noteq> [])"
    by (simp add: prTooMany_def prNone_def)
  note t1 = key_sources_selected_and_exclusive [where pr = prBothPaths and ext = sampleExt,
      THEN conjunct1, rule_format, OF a1]
  note t2 = key_sources_selected_and_exclusive [where pr = prKeys and ext = sampleExt,
      THEN conjunct2, THEN conjunct1, rule_format, OF a2]
  note t3 = key_sources_selected_and_exclusive [where pr = prBothDatas and ext = sampleExt,
      THEN conjunct2, THEN conjunct2, THEN conjunct1, rule_format, OF a3]
  note t4 = key_sources_selected_and_exclusive [where pr = prTooMany and ext = sampleExt,
      THEN conjunct2, THEN conjunct2, THEN conjunct2, THEN conjunct1, rule_format, OF a4]
  note t5 = key_sources_selected_and_exclusive [where pr = prTooMany and ext = sampleExt,
      THEN conjunct2, THEN conjunct2, THEN conjunct2, THEN conjunct2, rule_format, OF a5]
  show ?thesis
    using t1 t2 t3 t4 t5 by (simp add: v1 v2 v3 v4)
qed

subsection \<open>Author acceptance\<close>

text \<open>
  C9. \<open>isSignatureAuthorAccepted\<close> returns, for every requirement, context, image and raw
  signature, the rejected result with a nil \<open>Signature\<close> and the "not implemented" error; it
  never accepts, and its result does not depend on any argument.
\<close>

theorem isSignatureAuthorAccepted_not_implemented:
  "isSignatureAuthorAccepted pr ctx img sig =
     (sarRejected, None, Some (ErrorNew ''isSignatureAuthorAccepted is not implemented for sigstore''))
   \<and> fst (isSignatureAuthorAccepted pr ctx img sig) \<noteq> sarAccepted
   \<and> isSignatureAuthorAccepted pr ctx img sig = isSignatureAuthorAccepted pr' ctx' img' sig'"
  by (simp add: isSignatureAuthorAccepted_def)

subsection \<open>Signature verification\<close>

text \<open>
  The loop of lines 188-204 is a filter: it keeps, in order, the keys that pass, whatever
  happens to the keys before and after them.
\<close>

lemma rekorKeyLoop_filter:
  "rekorKeyLoop ext rk st b64 pl pks acc = acc @ filter (passesRekorSET ext rk st b64 pl) pks"
  by (induction pks arbitrary: acc) (simp_all add: passesRekorSET_def split: sum.splits)

lemma passesRekorSET_VerifySigstorePayload_update [simp]:
  "passesRekorSET (ext\<lparr>VerifySigstorePayload := v\<rparr>) = passesRekorSET ext"
  by (intro ext) (simp add: passesRekorSET_def split: sum.splits)

lemma candidateKeys_rekor:
  assumes "publicKeys tr \<noteq> []" and "fulcio tr = None" and "rekorPublicKey tr = Some rk"
    and "anns (SigstoreSETAnnotationKey ext) = Some st"
  shows "candidateKeys ext tr anns b64 pl =
    (if filter (passesRekorSET ext rk st b64 pl) (publicKeys tr) = []
     then Inl (ErrorNew ''No public key verified against the RekorSET'')
     else Inr (filter (passesRekorSET ext rk st b64 pl) (publicKeys tr)))"
  using assms by (simp add: candidateKeys_def rekorKeyLoop_filter Let_def)

text \<open>
  C3. Direct public keys with a Rekor key, for a signature that has the signature and the SET
  annotations: the loop keeps exactly the configured keys that re-marshal and verify
  against the SET, so a key that fails is dropped and the keys after it are still tried. If
  some key passes, the payload verifier is called with the keys that passed. If none does,
  the signature is rejected with "No public key verified against the RekorSET", and the
  payload verifier has no part in that: the result is the same for every payload verifier.
\<close>

theorem rekor_filter_per_key:
  assumes "publicKeys tr \<noteq> []" and "fulcio tr = None" and "rekorPublicKey tr = Some rk"
    and "UntrustedAnnotations sig (SigstoreSignatureAnnotationKey ext) = Some b64"
    and "UntrustedAnnotations sig (SigstoreSETAnnotationKey ext) = Some st"
  shows "rekorKeyLoop ext rk st b64 (UntrustedPayload sig) (publicKeys tr) []
           = filter (passesRekorSET ext rk st b64 (UntrustedPayload sig)) (publicKeys tr)
       \<and> (if \<exists>pk \<in> set (publicKeys tr). passesRekorSET ext rk st b64 (UntrustedPayload sig) pk
          then acceptWithTrustRoot ext pr img tr sig =
            (case VerifySigstorePayload ext
                    (filter (passesRekorSET ext rk st b64 (UntrustedPayload sig)) (publicKeys tr))
                    (UntrustedPayload sig) b64 (payloadRules ext pr img) of
               Inl err \<Rightarrow> (rejectedRes, Some err)
             | Inr (signature, signingKey) \<Rightarrow>
                 if signature = None then
                   (rejectedRes,
                    Some (ErrorNew ''internal error: VerifySigstorePayload succeeded but returned no data''))
                 else (\<lparr>result = sarAccepted, key = signingKey\<rparr>, None))
          else (\<forall>v. acceptWithTrustRoot (ext\<lparr>VerifySigstorePayload := v\<rparr>) pr img tr sig =
                 (rejectedRes, Some (ErrorNew ''No public key verified against the RekorSET''))))"
proof -
  let ?P = "passesRekorSET ext rk st b64 (UntrustedPayload sig)"
  have loop: "rekorKeyLoop ext rk st b64 (UntrustedPayload sig) (publicKeys tr) [] = filter ?P (publicKeys tr)"
    by (simp add: rekorKeyLoop_filter)
  have ck: "candidateKeys ext tr (UntrustedAnnotations sig) b64 (UntrustedPayload sig) =
      (if filter ?P (publicKeys tr) = [] then Inl (ErrorNew ''No public key verified against the RekorSET'')
       else Inr (filter ?P (publicKeys tr)))"
    using assms by (simp add: candidateKeys_rekor)
  have ck': "candidateKeys (ext\<lparr>VerifySigstorePayload := v\<rparr>) tr (UntrustedAnnotations sig) b64
        (UntrustedPayload sig) =
      (if filter ?P (publicKeys tr) = [] then Inl (ErrorNew ''No public key verified against the RekorSET'')
       else Inr (filter ?P (publicKeys tr)))" for v
    using assms by (simp add: candidateKeys_rekor)
  show ?thesis
  proof (cases "\<exists>pk \<in> set (publicKeys tr). ?P pk")
    case True
    then have ne: "filter ?P (publicKeys tr) \<noteq> []"
      by (simp add: filter_empty_conv)
    show ?thesis
      using True ne loop assms(4) ck
      by (simp add: acceptWithTrustRoot_def payloadRules_def)
  next
    case False
    then have e: "filter ?P (publicKeys tr) = []"
      by (simp add: filter_empty_conv)
    have "acceptWithTrustRoot (ext\<lparr>VerifySigstorePayload := v\<rparr>) pr img tr sig =
            (rejectedRes, Some (ErrorNew ''No public key verified against the RekorSET''))" for v
      using e assms(4) ck' [of v]
      by (simp add: acceptWithTrustRoot_def)
    then show ?thesis using False loop by simp
  qed
qed

theorem rekor_filter_per_key_witness:
  "publicKeys trKeysRekor \<noteq> [] \<and> fulcio trKeysRekor = None
   \<and> rekorPublicKey trKeysRekor = Some (ECDSAPublicKey ''rekor.pub'')
   \<and> UntrustedAnnotations (sigLogged ''bob.pub'') (SigstoreSignatureAnnotationKey sampleExt) = Some ''bob.pub''
   \<and> UntrustedAnnotations (sigLogged ''bob.pub'') (SigstoreSETAnnotationKey sampleExt) = Some ''bob.pub''
   \<and> rekorKeyLoop sampleExt (ECDSAPublicKey ''rekor.pub'') ''bob.pub'' ''bob.pub''
        (UntrustedPayload (sigLogged ''bob.pub'')) (publicKeys trKeysRekor) [] = [OtherKey ''bob.pub'']
   \<and> acceptWithTrustRoot sampleExt prKeys (imageWith []) trKeysRekor (sigLogged ''bob.pub'') =
        (\<lparr>result = sarAccepted, key = Some (OtherKey ''bob.pub'')\<rparr>, None)"
proof -
  have h1: "publicKeys trKeysRekor \<noteq> []" by (simp add: trKeysRekor_def)
  have h2: "fulcio trKeysRekor = None" by (simp add: trKeysRekor_def)
  have h3: "rekorPublicKey trKeysRekor = Some (ECDSAPublicKey ''rekor.pub'')" by (simp add: trKeysRekor_def)
  have h4: "UntrustedAnnotations (sigLogged ''bob.pub'') (SigstoreSignatureAnnotationKey sampleExt) = Some ''bob.pub''"
    by (simp add: sigLogged_def sampleExt_def)
  have h5: "UntrustedAnnotations (sigLogged ''bob.pub'') (SigstoreSETAnnotationKey sampleExt) = Some ''bob.pub''"
    by (simp add: sigLogged_def sampleExt_def)
  have ks: "publicKeys trKeysRekor = [OtherKey ''alice.pub'', OtherKey ''bob.pub'']"
    by (simp add: trKeysRekor_def)
  have v: "VerifySigstorePayload sampleExt [OtherKey ''bob.pub''] (UntrustedPayload (sigLogged ''bob.pub'')) ''bob.pub''
             (payloadRules sampleExt prKeys (imageWith [])) =
           Inr (Some (UntrustedSigstorePayload ''registry.example/app'' []), Some (OtherKey ''bob.pub''))"
    by (simp add: sampleExt_def sigLogged_def payloadRules_def validateSignedDockerReference_def prKeys_def
        prNone_def)
  show ?thesis
    using h1 h2 h3 h4 h5 rekor_filter_per_key [OF h1 h2 h3 h4 h5, of prKeys "imageWith []"]
    by (simp add: ks sample_passesRekorSET v)
qed

text \<open>
  C6, as stated, fails: the signature annotation is looked up (lines 167-171) before the
  switch looks at the trust root, so a signature without it is rejected with the ordinary
  "missing annotation" reason even when the trust root has neither keys nor a Fulcio CA.
\<close>

theorem inconsistent_trust_root_counterexample:
  "prepareTrustRoot sampleExt prNone = Inr \<lparr>publicKeys = [], fulcio = None, rekorPublicKey = None\<rparr>
   \<and> acceptWithTrustRoot sampleExt prNone (imageWith [IsSigstore sigBare])
        \<lparr>publicKeys = [], fulcio = None, rekorPublicKey = None\<rparr> sigBare =
      (rejectedRes, Some (ErrorNew ''missing dev.cosignproject.cosign/signature annotation''))
   \<and> isSignatureAccepted sampleExt prNone (imageWith [IsSigstore sigBare]) sigBare =
      (rejectedRes, Some (ErrorNew ''missing dev.cosignproject.cosign/signature annotation''))"
  by (simp add: isSignatureAccepted_def prepare_prNone) (simp add: acceptWithTrustRoot_def sigBare_def sampleExt_def)

text \<open>
  C6, amended. For every trust root that has both public keys and a Fulcio CA, or neither,
  or a Fulcio CA without a Rekor key: a signature that carries the signature annotation is
  rejected with the "Internal inconsistency" error of the case that applies; a signature
  that does not is rejected with the "missing annotation" error. Neither is accepted.
\<close>

theorem inconsistent_trust_root_internal_error:
  assumes "(publicKeys tr \<noteq> [] \<and> fulcio tr \<noteq> None) \<or> (publicKeys tr = [] \<and> fulcio tr = None)
           \<or> (fulcio tr \<noteq> None \<and> rekorPublicKey tr = None)"
  shows "acceptWithTrustRoot ext pr img tr sig =
    (rejectedRes,
     Some (ErrorNew
       (case UntrustedAnnotations sig (SigstoreSignatureAnnotationKey ext) of
          None \<Rightarrow> ''missing '' @ SigstoreSignatureAnnotationKey ext @ '' annotation''
        | Some untrustedBase64Signature \<Rightarrow>
            if publicKeys tr \<noteq> [] \<and> fulcio tr \<noteq> None then
              ''Internal inconsistency: Both a public key and Fulcio CA specified''
            else if publicKeys tr = [] \<and> fulcio tr = None then
              ''Internal inconsistency: Neither a public key nor a Fulcio CA specified''
            else ''Internal inconsistency: Fulcio CA specified without a Rekor public key'')))"
proof (cases "UntrustedAnnotations sig (SigstoreSignatureAnnotationKey ext)")
  case None
  then show ?thesis by (simp add: acceptWithTrustRoot_def)
next
  case (Some b64)
  have "candidateKeys ext tr (UntrustedAnnotations sig) b64 (UntrustedPayload sig) =
    Inl (ErrorNew (if publicKeys tr \<noteq> [] \<and> fulcio tr \<noteq> None then
              ''Internal inconsistency: Both a public key and Fulcio CA specified''
            else if publicKeys tr = [] \<and> fulcio tr = None then
              ''Internal inconsistency: Neither a public key nor a Fulcio CA specified''
            else ''Internal inconsistency: Fulcio CA specified without a Rekor public key''))"
    using assms by (auto simp add: candidateKeys_def)
  with Some show ?thesis by (simp add: acceptWithTrustRoot_def)
qed

theorem inconsistent_trust_root_internal_error_witness:
  "((publicKeys \<lparr>publicKeys = [], fulcio = None, rekorPublicKey = None\<rparr> \<noteq> []
      \<and> fulcio \<lparr>publicKeys = [], fulcio = None, rekorPublicKey = None\<rparr> \<noteq> None)
    \<or> (publicKeys \<lparr>publicKeys = [], fulcio = None, rekorPublicKey = None\<rparr> = []
      \<and> fulcio \<lparr>publicKeys = [], fulcio = None, rekorPublicKey = None\<rparr> = None)
    \<or> (fulcio \<lparr>publicKeys = [], fulcio = None, rekorPublicKey = None\<rparr> \<noteq> None
      \<and> rekorPublicKey \<lparr>publicKeys = [], fulcio = None, rekorPublicKey = None\<rparr> = None))
   \<and> acceptWithTrustRoot sampleExt prNone (imageWith []) \<lparr>publicKeys = [], fulcio = None, rekorPublicKey = None\<rparr>
        (sigBy ''alice.pub'') =
      (rejectedRes, Some (ErrorNew ''Internal inconsistency: Neither a public key nor a Fulcio CA specified''))"
proof -
  let ?tr = "\<lparr>publicKeys = [], fulcio = None, rekorPublicKey = None\<rparr>"
  have h: "(publicKeys ?tr \<noteq> [] \<and> fulcio ?tr \<noteq> None) \<or> (publicKeys ?tr = [] \<and> fulcio ?tr = None)
           \<or> (fulcio ?tr \<noteq> None \<and> rekorPublicKey ?tr = None)"
    by simp
  have a: "UntrustedAnnotations (sigBy ''alice.pub'') (SigstoreSignatureAnnotationKey sampleExt) = Some ''alice.pub''"
    by (simp add: sigBy_def sampleExt_def)
  have "acceptWithTrustRoot sampleExt prNone (imageWith []) ?tr (sigBy ''alice.pub'') =
      (rejectedRes, Some (ErrorNew ''Internal inconsistency: Neither a public key nor a Fulcio CA specified''))"
    unfolding inconsistent_trust_root_internal_error [OF h] a by simp
  with h show ?thesis by blast
qed

text \<open>
  C7, as stated, fails: with a Rekor key configured but neither keys nor a Fulcio CA, a
  signature without the SET annotation is rejected with "Neither a public key nor a Fulcio CA
  specified"; and in the Fulcio case without a Rekor key, a signature without the certificate
  annotation is rejected with "Fulcio CA specified without a Rekor public key". Neither
  message names an annotation.
\<close>

theorem missing_annotation_counterexample:
  "prepareTrustRoot sampleExt prRekorOnly =
     Inr \<lparr>publicKeys = [], fulcio = None, rekorPublicKey = Some (ECDSAPublicKey ''rekor.pub'')\<rparr>
   \<and> UntrustedAnnotations (sigBy ''alice.pub'') (SigstoreSETAnnotationKey sampleExt) = None
   \<and> isSignatureAccepted sampleExt prRekorOnly (imageWith [IsSigstore (sigBy ''alice.pub'')]) (sigBy ''alice.pub'') =
      (rejectedRes, Some (ErrorNew ''Internal inconsistency: Neither a public key nor a Fulcio CA specified''))
   \<and> prepareTrustRoot sampleExt prFulcioOnly =
     Inr \<lparr>publicKeys = [],
          fulcio = Some \<lparr>caCertificates = [''ca.pem''], oidcIssuer = ''https://issuer.example'',
                         subjectEmail = ''dev@example.com''\<rparr>,
          rekorPublicKey = None\<rparr>
   \<and> UntrustedAnnotations (sigBy ''alice.pub'') (SigstoreCertificateAnnotationKey sampleExt) = None
   \<and> isSignatureAccepted sampleExt prFulcioOnly (imageWith [IsSigstore (sigBy ''alice.pub'')]) (sigBy ''alice.pub'') =
      (rejectedRes, Some (ErrorNew ''Internal inconsistency: Fulcio CA specified without a Rekor public key''))"
proof -
  have a: "UntrustedAnnotations (sigBy ''alice.pub'') (SigstoreSETAnnotationKey sampleExt) = None"
    "UntrustedAnnotations (sigBy ''alice.pub'') (SigstoreCertificateAnnotationKey sampleExt) = None"
    by (simp_all add: sigBy_def sampleExt_def)
  have b: "isSignatureAccepted sampleExt prRekorOnly (imageWith [IsSigstore (sigBy ''alice.pub'')]) (sigBy ''alice.pub'') =
      (rejectedRes, Some (ErrorNew ''Internal inconsistency: Neither a public key nor a Fulcio CA specified''))"
    by (simp add: isSignatureAccepted_def prepare_prRekorOnly)
      (simp add: acceptWithTrustRoot_def candidateKeys_def sigBy_def sampleExt_def)
  have c: "isSignatureAccepted sampleExt prFulcioOnly (imageWith [IsSigstore (sigBy ''alice.pub'')]) (sigBy ''alice.pub'') =
      (rejectedRes, Some (ErrorNew ''Internal inconsistency: Fulcio CA specified without a Rekor public key''))"
    by (simp add: isSignatureAccepted_def prepare_prFulcioOnly)
      (simp add: acceptWithTrustRoot_def candidateKeys_def sigBy_def sampleExt_def)
  show ?thesis
    using a b c by (simp add: prepare_prRekorOnly prepare_prFulcioOnly)
qed

text \<open>
  C7, amended. The outcome is the rejected result with "missing <key> annotation": for the
  signature annotation, with every trust root; for the SET annotation, when the signature
  annotation is there, a Rekor key is configured and exactly one of public keys and Fulcio
  CA is set; for the certificate annotation, when the signature and SET annotations are
  there and the trust root has a Fulcio CA, a Rekor key and no public keys.
\<close>

theorem missing_annotation_rejected:
  "(UntrustedAnnotations sig (SigstoreSignatureAnnotationKey ext) = None \<longrightarrow>
      acceptWithTrustRoot ext pr img tr sig =
        (rejectedRes, Some (ErrorNew (''missing '' @ SigstoreSignatureAnnotationKey ext @ '' annotation''))))
   \<and> (UntrustedAnnotations sig (SigstoreSignatureAnnotationKey ext) \<noteq> None
       \<and> rekorPublicKey tr \<noteq> None \<and> (publicKeys tr \<noteq> [] \<longleftrightarrow> fulcio tr = None)
       \<and> UntrustedAnnotations sig (SigstoreSETAnnotationKey ext) = None \<longrightarrow>
      acceptWithTrustRoot ext pr img tr sig =
        (rejectedRes, Some (ErrorNew (''missing '' @ SigstoreSETAnnotationKey ext @ '' annotation''))))
   \<and> (UntrustedAnnotations sig (SigstoreSignatureAnnotationKey ext) \<noteq> None
       \<and> rekorPublicKey tr \<noteq> None \<and> publicKeys tr = [] \<and> fulcio tr \<noteq> None
       \<and> UntrustedAnnotations sig (SigstoreSETAnnotationKey ext) \<noteq> None
       \<and> UntrustedAnnotations sig (SigstoreCertificateAnnotationKey ext) = None \<longrightarrow>
      acceptWithTrustRoot ext pr img tr sig =
        (rejectedRes, Some (ErrorNew (''missing '' @ SigstoreCertificateAnnotationKey ext @ '' annotation''))))"
  by (auto simp add: acceptWithTrustRoot_def candidateKeys_def)

theorem missing_annotation_rejected_witness:
  "acceptWithTrustRoot sampleExt prKeys (imageWith []) trKeysRekor sigBare =
     (rejectedRes, Some (ErrorNew ''missing dev.cosignproject.cosign/signature annotation''))
   \<and> acceptWithTrustRoot sampleExt prKeys (imageWith []) trKeysRekor (sigBy ''alice.pub'') =
     (rejectedRes, Some (ErrorNew ''missing dev.sigstore.cosign/bundle annotation''))
   \<and> acceptWithTrustRoot sampleExt prKeys (imageWith []) trFulcioRekor (sigLogged ''alice.pub'') =
     (rejectedRes, Some (ErrorNew ''missing dev.sigstore.cosign/certificate annotation''))"
proof -
  have k: "SigstoreSignatureAnnotationKey sampleExt = ''dev.cosignproject.cosign/signature''"
    "SigstoreSETAnnotationKey sampleExt = ''dev.sigstore.cosign/bundle''"
    "SigstoreCertificateAnnotationKey sampleExt = ''dev.sigstore.cosign/certificate''"
    by (simp_all add: sampleExt_def)
  have a1: "UntrustedAnnotations sigBare (SigstoreSignatureAnnotationKey sampleExt) = None"
    by (simp add: sigBare_def)
  have a2: "UntrustedAnnotations (sigBy ''alice.pub'') (SigstoreSignatureAnnotationKey sampleExt) \<noteq> None
      \<and> rekorPublicKey trKeysRekor \<noteq> None \<and> (publicKeys trKeysRekor \<noteq> [] \<longleftrightarrow> fulcio trKeysRekor = None)
      \<and> UntrustedAnnotations (sigBy ''alice.pub'') (SigstoreSETAnnotationKey sampleExt) = None"
    by (simp add: k sigBy_def trKeysRekor_def)
  have a3: "UntrustedAnnotations (sigLogged ''alice.pub'') (SigstoreSignatureAnnotationKey sampleExt) \<noteq> None
      \<and> rekorPublicKey trFulcioRekor \<noteq> None \<and> publicKeys trFulcioRekor = [] \<and> fulcio trFulcioRekor \<noteq> None
      \<and> UntrustedAnnotations (sigLogged ''alice.pub'') (SigstoreSETAnnotationKey sampleExt) \<noteq> None
      \<and> UntrustedAnnotations (sigLogged ''alice.pub'') (SigstoreCertificateAnnotationKey sampleExt) = None"
    by (simp add: k sigLogged_def trFulcioRekor_def)
  note t1 = missing_annotation_rejected [where sig = sigBare and ext = sampleExt and pr = prKeys
      and img = "imageWith []" and tr = trKeysRekor, THEN conjunct1, rule_format, OF a1]
  note t2 = missing_annotation_rejected [where sig = "sigBy ''alice.pub''" and ext = sampleExt and pr = prKeys
      and img = "imageWith []" and tr = trKeysRekor, THEN conjunct2, THEN conjunct1, rule_format, OF a2]
  note t3 = missing_annotation_rejected [where sig = "sigLogged ''alice.pub''" and ext = sampleExt and pr = prKeys
      and img = "imageWith []" and tr = trFulcioRekor, THEN conjunct2, THEN conjunct2, rule_format, OF a3]
  show ?thesis
    unfolding t1 t2 t3 k by simp
qed

text \<open>
  C10. For every trust root, image and signature, and for \<open>isSignatureAccepted\<close> itself, the
  result is either accepted with a nil error, the key being the one the payload verifier
  returned for a non-empty list of candidate keys, or \<open>rejectedRes\<close> (rejected, nil key) with
  an error that is not nil. So it is never \<open>sarUnknown\<close>, and never accepted with an error.
\<close>

theorem isSignatureAccepted_result_invariant:
  "(case acceptWithTrustRoot ext pr img trustRoot sig of
      (res, err) \<Rightarrow>
        (result res = sarAccepted \<and> err = None
         \<and> (\<exists>ks b64 pl. ks \<noteq> [] \<and> UntrustedAnnotations sig (SigstoreSignatureAnnotationKey ext) = Some b64
               \<and> VerifySigstorePayload ext ks (UntrustedPayload sig) b64 (payloadRules ext pr img)
                   = Inr (Some pl, key res)))
        \<or> (res = rejectedRes \<and> err \<noteq> None))
   \<and> (case isSignatureAccepted ext pr img sig of
      (res, err) \<Rightarrow>
        (result res = sarAccepted \<and> err = None
         \<and> (\<exists>ks b64 pl. ks \<noteq> [] \<and> UntrustedAnnotations sig (SigstoreSignatureAnnotationKey ext) = Some b64
               \<and> VerifySigstorePayload ext ks (UntrustedPayload sig) b64 (payloadRules ext pr img)
                   = Inr (Some pl, key res)))
        \<or> (res = rejectedRes \<and> err \<noteq> None))"
proof -
  have a: "(case acceptWithTrustRoot ext pr img tr sig of
      (res, err) \<Rightarrow>
        (result res = sarAccepted \<and> err = None
         \<and> (\<exists>ks b64 pl. ks \<noteq> [] \<and> UntrustedAnnotations sig (SigstoreSignatureAnnotationKey ext) = Some b64
               \<and> VerifySigstorePayload ext ks (UntrustedPayload sig) b64 (payloadRules ext pr img)
                   = Inr (Some pl, key res)))
        \<or> (res = rejectedRes \<and> err \<noteq> None))" for tr
    unfolding acceptWithTrustRoot_def
    by (auto split: option.splits sum.splits prod.splits)
  show ?thesis
    using a by (simp add: isSignatureAccepted_def split: sum.splits)
qed

theorem isSignatureAccepted_result_invariant_witness:
  "isSignatureAccepted sampleExt prKeys (imageWith []) (sigBy ''alice.pub'') =
     (\<lparr>result = sarAccepted, key = Some (OtherKey ''alice.pub'')\<rparr>, None)
   \<and> (\<exists>ks b64 pl. ks \<noteq> []
         \<and> UntrustedAnnotations (sigBy ''alice.pub'') (SigstoreSignatureAnnotationKey sampleExt) = Some b64
         \<and> VerifySigstorePayload sampleExt ks (UntrustedPayload (sigBy ''alice.pub'')) b64
             (payloadRules sampleExt prKeys (imageWith [])) = Inr (Some pl, Some (OtherKey ''alice.pub'')))"
  using isSignatureAccepted_result_invariant [where ext = sampleExt and pr = prKeys and img = "imageWith []"
      and sig = "sigBy ''alice.pub''"]
  by (simp add: accept_alice rejectedRes_def)

subsection \<open>Image admission\<close>

text \<open>
  The loop of lines 285-310 over a list in which no signature is accepted, and over a list
  with a first accepted signature.
\<close>

lemma signaturesLoop_none_accepted:
  "\<forall>s \<in> set sigs. \<not> sigAccepted ext pr img s \<Longrightarrow>
   signaturesLoop ext pr img sigs rejections n m =
     (False, summary (rejections @ recordedRejections ext pr img sigs)
               (n + nonSigstoreCount sigs) (m + nonAttachmentCount ext sigs))"
proof (induction sigs arbitrary: rejections n m)
  case Nil
  then show ?case by simp
next
  case (Cons s sigs)
  then have IH: "\<And>rejections n m. signaturesLoop ext pr img sigs rejections n m =
     (False, summary (rejections @ recordedRejections ext pr img sigs)
               (n + nonSigstoreCount sigs) (m + nonAttachmentCount ext sigs))"
    by simp
  from Cons.prems have na: "\<not> sigAccepted ext pr img s" by simp
  show ?case
  proof (cases s)
    case (NotSigstore x)
    then show ?thesis by (simp add: IH)
  next
    case (IsSigstore sg)
    show ?thesis
    proof (cases "UntrustedMIMEType sg = SigstoreSignatureMIMEType ext")
      case False
      with IsSigstore show ?thesis by (simp add: IH)
    next
      case True
      with na IsSigstore have nacc: "result (fst (isSignatureAccepted ext pr img sg)) \<noteq> sarAccepted"
        by (simp add: sigAccepted_def)
      obtain res err where r: "isSignatureAccepted ext pr img sg = (res, err)"
        by (cases "isSignatureAccepted ext pr img sg")
      with nacc have "result res \<noteq> sarAccepted" by simp
      then show ?thesis
        using IsSigstore True r
        by (cases "result res") (simp_all add: IH rejectionReason_def)
    qed
  qed
qed

lemma signaturesLoop_first_accepted:
  "\<forall>x \<in> set pre. \<not> sigAccepted ext pr img x \<Longrightarrow> sigAccepted ext pr img s \<Longrightarrow>
   signaturesLoop ext pr img (pre @ s # post) rejections n m = (True, None)"
proof (induction pre arbitrary: rejections n m)
  case Nil
  then show ?case
    by (cases s) (auto simp add: sigAccepted_def split: prod.splits)
next
  case (Cons x pre)
  then have IH: "\<And>rejections n m. signaturesLoop ext pr img (pre @ s # post) rejections n m = (True, None)"
    by simp
  from Cons.prems have na: "\<not> sigAccepted ext pr img x" by simp
  show ?case
  proof (cases x)
    case (NotSigstore y)
    then show ?thesis by (simp add: IH)
  next
    case (IsSigstore sg)
    obtain res err where r: "isSignatureAccepted ext pr img sg = (res, err)"
      by (cases "isSignatureAccepted ext pr img sg")
    show ?thesis
      using IsSigstore na r
      by (cases "result res") (simp_all add: IH sigAccepted_def)
  qed
qed

text \<open>
  C5. If the signatures of the image are \<open>pre @ s # post\<close>, no signature of \<open>pre\<close> is accepted
  and \<open>s\<close> is, the result is (true, nil); and the loop gives that result whatever follows
  \<open>s\<close>, so nothing after the first accepted signature has a part in it.
\<close>

theorem first_accepted_signature_wins:
  assumes "UntrustedSignatures img = Inr (pre @ s # post)"
    and "\<forall>x \<in> set pre. \<not> sigAccepted ext pr img x"
    and "sigAccepted ext pr img s"
  shows "isRunningImageAllowed ext pr img = (True, None)
       \<and> (\<forall>post'. signaturesLoop ext pr img (pre @ s # post') [] 0 0 = (True, None))"
  using assms signaturesLoop_first_accepted [of pre ext pr img s]
  by (simp add: isRunningImageAllowed_def)

theorem first_accepted_signature_wins_witness:
  "UntrustedSignatures (imageWith ([NotSigstore ''simple signing'', IsSigstore (sigBy ''mallory.pub'')]
                                     @ IsSigstore (sigBy ''alice.pub'') # [IsSigstore sigBare])) =
     Inr ([NotSigstore ''simple signing'', IsSigstore (sigBy ''mallory.pub'')]
          @ IsSigstore (sigBy ''alice.pub'') # [IsSigstore sigBare])
   \<and> \<not> sigAccepted sampleExt prKeys
         (imageWith ([NotSigstore ''simple signing'', IsSigstore (sigBy ''mallory.pub'')]
                     @ IsSigstore (sigBy ''alice.pub'') # [IsSigstore sigBare]))
         (NotSigstore ''simple signing'')
   \<and> \<not> sigAccepted sampleExt prKeys
         (imageWith ([NotSigstore ''simple signing'', IsSigstore (sigBy ''mallory.pub'')]
                     @ IsSigstore (sigBy ''alice.pub'') # [IsSigstore sigBare]))
         (IsSigstore (sigBy ''mallory.pub''))
   \<and> sigAccepted sampleExt prKeys
        (imageWith ([NotSigstore ''simple signing'', IsSigstore (sigBy ''mallory.pub'')]
                    @ IsSigstore (sigBy ''alice.pub'') # [IsSigstore sigBare]))
        (IsSigstore (sigBy ''alice.pub''))
   \<and> isRunningImageAllowed sampleExt prKeys
        (imageWith ([NotSigstore ''simple signing'', IsSigstore (sigBy ''mallory.pub'')]
                    @ IsSigstore (sigBy ''alice.pub'') # [IsSigstore sigBare])) = (True, None)"
proof -
  let ?pre = "[NotSigstore ''simple signing'', IsSigstore (sigBy ''mallory.pub'')]"
  let ?img = "imageWith (?pre @ IsSigstore (sigBy ''alice.pub'') # [IsSigstore sigBare])"
  have h1: "UntrustedSignatures ?img = Inr (?pre @ IsSigstore (sigBy ''alice.pub'') # [IsSigstore sigBare])"
    by (simp add: imageWith_def)
  have h2: "\<forall>x \<in> set ?pre. \<not> sigAccepted sampleExt prKeys ?img x"
    by (simp add: sigAccepted_def reject_mallory rejectedRes_def)
  have h3: "sigAccepted sampleExt prKeys ?img (IsSigstore (sigBy ''alice.pub''))"
    by (simp add: sigAccepted_def accept_alice) (simp add: sigBy_def sampleExt_def)
  from first_accepted_signature_wins [OF h1 h2 h3]
  have "isRunningImageAllowed sampleExt prKeys ?img = (True, None)"
    by blast
  with h1 h2 h3 show ?thesis by simp
qed

text \<open>
  C8. When no signature is accepted the result is (false, summary): with no rejection and
  both counters zero, "A signature was required, but no signature exists"; with no rejection
  and a counter that is not zero, that message with both counts; with one rejection, that
  rejection's error itself; with two or more, one \<open>PolicyRequirementError\<close> whose message is
  what \<open>multierr.Format\<close> makes of the header "None of the signatures were accepted,
  reasons: ", the separator "; " and the whole list of rejections, in the order of the
  signatures.
\<close>

theorem no_accepted_signature_summary:
  assumes "UntrustedSignatures img = Inr sigs"
    and "\<forall>s \<in> set sigs. \<not> sigAccepted ext pr img s"
  shows "isRunningImageAllowed ext pr img =
    (False,
     (case recordedRejections ext pr img sigs of
        [] \<Rightarrow>
          if nonSigstoreCount sigs = 0 \<and> nonAttachmentCount ext sigs = 0 then
            Some (PolicyRequirementError ''A signature was required, but no signature exists'')
          else
            Some (PolicyRequirementError
              (''A signature was required, but no signature exists ('' @ verbD (nonSigstoreCount sigs)
               @ '' non-sigstore signatures, '' @ verbD (nonAttachmentCount ext sigs)
               @ '' sigstore non-signature attachments)''))
      | [r] \<Rightarrow> r
      | r # r' # rs \<Rightarrow>
          Some (PolicyRequirementError
            (errorString (multierr_Format ''None of the signatures were accepted, reasons: '' ''; '' []
                            (r # r' # rs))))))"
proof -
  have "isRunningImageAllowed ext pr img =
      (False, summary (recordedRejections ext pr img sigs) (nonSigstoreCount sigs) (nonAttachmentCount ext sigs))"
    using assms signaturesLoop_none_accepted [of sigs ext pr img "[]" 0 0]
    by (simp add: isRunningImageAllowed_def)
  then show ?thesis
    by (simp add: summary_def split: list.splits)
qed

theorem no_accepted_signature_summary_witness:
  "UntrustedSignatures (imageWith [NotSigstore ''simple signing'', IsSigstore (sigBy ''mallory.pub''),
                                   IsSigstore sigBare]) =
     Inr [NotSigstore ''simple signing'', IsSigstore (sigBy ''mallory.pub''), IsSigstore sigBare]
   \<and> \<not> sigAccepted sampleExt prKeys
         (imageWith [NotSigstore ''simple signing'', IsSigstore (sigBy ''mallory.pub''), IsSigstore sigBare])
         (NotSigstore ''simple signing'')
   \<and> \<not> sigAccepted sampleExt prKeys
         (imageWith [NotSigstore ''simple signing'', IsSigstore (sigBy ''mallory.pub''), IsSigstore sigBare])
         (IsSigstore (sigBy ''mallory.pub''))
   \<and> \<not> sigAccepted sampleExt prKeys
         (imageWith [NotSigstore ''simple signing'', IsSigstore (sigBy ''mallory.pub''), IsSigstore sigBare])
         (IsSigstore sigBare)
   \<and> isRunningImageAllowed sampleExt prKeys
        (imageWith [NotSigstore ''simple signing'', IsSigstore (sigBy ''mallory.pub''), IsSigstore sigBare]) =
      (False, Some (PolicyRequirementError
         ''None of the signatures were accepted, reasons: cryptographic signature verification failed; missing dev.cosignproject.cosign/signature annotation''))"
proof -
  let ?sigs = "[NotSigstore ''simple signing'', IsSigstore (sigBy ''mallory.pub''), IsSigstore sigBare]"
  have h1: "UntrustedSignatures (imageWith ?sigs) = Inr ?sigs"
    by (simp add: imageWith_def)
  have h2: "\<forall>s \<in> set ?sigs. \<not> sigAccepted sampleExt prKeys (imageWith ?sigs) s"
    by (simp add: sigAccepted_def reject_mallory reject_bare rejectedRes_def)
  have m: "UntrustedMIMEType (sigBy ''mallory.pub'') = SigstoreSignatureMIMEType sampleExt"
    "UntrustedMIMEType sigBare = SigstoreSignatureMIMEType sampleExt"
    by (simp_all add: sigBy_def sigBare_def sampleExt_def)
  have r: "recordedRejections sampleExt prKeys (imageWith ?sigs) ?sigs =
      [Some (ErrorNew ''cryptographic signature verification failed''),
       Some (ErrorNew ''missing dev.cosignproject.cosign/signature annotation'')]"
    by (simp add: m rejectionReason_def reject_mallory reject_bare rejectedRes_def)
  have "isRunningImageAllowed sampleExt prKeys (imageWith ?sigs) =
      (False, Some (PolicyRequirementError
         ''None of the signatures were accepted, reasons: cryptographic signature verification failed; missing dev.cosignproject.cosign/signature annotation''))"
    unfolding no_accepted_signature_summary [OF h1 h2] r by (simp add: multierr_Format_def)
  with h1 h2 show ?thesis by simp
qed

lemma isSignatureAccepted_prepare_fails:
  "prepareTrustRoot ext pr = Inl e \<Longrightarrow> isSignatureAccepted ext pr img sig = (rejectedRes, Some e)"
  by (simp add: isSignatureAccepted_def)

lemma recordedRejections_prepare_fails:
  "prepareTrustRoot ext pr = Inl e \<Longrightarrow>
   recordedRejections ext pr img sigs = replicate (length (filter (isAttachment ext) sigs)) (Some e)"
proof (induction sigs)
  case Nil
  then show ?case by simp
next
  case (Cons s sigs)
  then show ?case
    by (cases s)
      (simp_all add: isAttachment_def rejectionReason_def isSignatureAccepted_prepare_fails rejectedRes_def)
qed

lemma not_sigAccepted_prepare_fails:
  "prepareTrustRoot ext pr = Inl e \<Longrightarrow> \<not> sigAccepted ext pr img s"
  by (cases s) (simp_all add: sigAccepted_def isSignatureAccepted_prepare_fails rejectedRes_def)

text \<open>
  C2, as stated, fails: with a requirement whose trust root cannot be prepared and an image
  with two sigstore signatures, the preparation error is recorded once per signature, the
  loop goes on to the second signature, and the result is a combined
  \<open>PolicyRequirementError\<close>, not the preparation error.
\<close>

theorem prepare_failure_counterexample:
  "prepareTrustRoot sampleExt prTooMany = Inl (ErrorNew ''Too many key sources are specified'')
   \<and> isRunningImageAllowed sampleExt prTooMany
        (imageWith [IsSigstore (sigBy ''alice.pub''), IsSigstore (sigBy ''bob.pub'')]) =
      (False, Some (PolicyRequirementError
         ''None of the signatures were accepted, reasons: Too many key sources are specified; Too many key sources are specified''))
   \<and> isRunningImageAllowed sampleExt prTooMany
        (imageWith [IsSigstore (sigBy ''alice.pub''), IsSigstore (sigBy ''bob.pub'')]) \<noteq>
      (False, Some (ErrorNew ''Too many key sources are specified''))"
proof -
  have m: "UntrustedMIMEType (sigBy k) = SigstoreSignatureMIMEType sampleExt" for k
    by (simp add: sigBy_def sampleExt_def)
  have a: "isSignatureAccepted sampleExt prTooMany img sig =
      (rejectedRes, Some (ErrorNew ''Too many key sources are specified''))" for img sig
    by (simp add: isSignatureAccepted_def prepare_prTooMany)
  have "isRunningImageAllowed sampleExt prTooMany
        (imageWith [IsSigstore (sigBy ''alice.pub''), IsSigstore (sigBy ''bob.pub'')]) =
      (False, Some (PolicyRequirementError
         ''None of the signatures were accepted, reasons: Too many key sources are specified; Too many key sources are specified''))"
    by (simp add: isRunningImageAllowed_def imageWith_def m a rejectedRes_def summary_def multierr_Format_def)
  then show ?thesis by (simp add: prepare_prTooMany)
qed

text \<open>
  C2, amended. When \<open>prepareTrustRoot\<close> fails with \<open>e\<close>, \<open>isSignatureAccepted\<close> rejects every
  signature with \<open>e\<close>; the aggregator records \<open>e\<close> once for each sigstore signature of the
  expected MIME type, goes through the whole list, and returns false with the summary of
  these rejections, which is \<open>e\<close> itself when there is exactly one such signature.
\<close>

theorem prepare_failure_is_per_signature_rejection:
  assumes "prepareTrustRoot ext pr = Inl e" and "UntrustedSignatures img = Inr sigs"
  shows "(\<forall>sig. isSignatureAccepted ext pr img sig = (rejectedRes, Some e))
       \<and> recordedRejections ext pr img sigs = replicate (length (filter (isAttachment ext) sigs)) (Some e)
       \<and> isRunningImageAllowed ext pr img =
           (False, summary (replicate (length (filter (isAttachment ext) sigs)) (Some e))
                     (nonSigstoreCount sigs) (nonAttachmentCount ext sigs))
       \<and> (length (filter (isAttachment ext) sigs) = 1 \<longrightarrow> isRunningImageAllowed ext pr img = (False, Some e))"
proof -
  have run: "isRunningImageAllowed ext pr img =
           (False, summary (replicate (length (filter (isAttachment ext) sigs)) (Some e))
                     (nonSigstoreCount sigs) (nonAttachmentCount ext sigs))"
    using assms signaturesLoop_none_accepted [of sigs ext pr img "[]" 0 0]
      not_sigAccepted_prepare_fails [of ext pr e img]
      recordedRejections_prepare_fails [of ext pr e img sigs]
    by (simp add: isRunningImageAllowed_def)
  show ?thesis
    using assms(1) run
    by (simp add: isSignatureAccepted_prepare_fails recordedRejections_prepare_fails summary_def)
qed

theorem prepare_failure_is_per_signature_rejection_witness:
  "prepareTrustRoot sampleExt prTooMany = Inl (ErrorNew ''Too many key sources are specified'')
   \<and> UntrustedSignatures (imageWith [IsSigstore (sigBy ''alice.pub''), NotSigstore ''simple signing'']) =
       Inr [IsSigstore (sigBy ''alice.pub''), NotSigstore ''simple signing'']
   \<and> isRunningImageAllowed sampleExt prTooMany
        (imageWith [IsSigstore (sigBy ''alice.pub''), NotSigstore ''simple signing'']) =
      (False, Some (ErrorNew ''Too many key sources are specified''))"
proof -
  let ?sigs = "[IsSigstore (sigBy ''alice.pub''), NotSigstore ''simple signing'']"
  have h1: "prepareTrustRoot sampleExt prTooMany = Inl (ErrorNew ''Too many key sources are specified'')"
    by (rule prepare_prTooMany)
  have h2: "UntrustedSignatures (imageWith ?sigs) = Inr ?sigs"
    by (simp add: imageWith_def)
  have n: "length (filter (isAttachment sampleExt) ?sigs) = 1"
    by (simp add: isAttachment_def sigBy_def sampleExt_def)
  from n prepare_failure_is_per_signature_rejection [OF h1 h2]
  have "isRunningImageAllowed sampleExt prTooMany (imageWith ?sigs) =
      (False, Some (ErrorNew ''Too many key sources are specified''))"
    by blast
  with h1 h2 show ?thesis by blast
qed

end
